theory Spec2Isabelle
  imports Complex_Main "HOL-Library.AList" "HOL-Library.Sublist"
begin

section \<open>Tables of the dashboard\<close>

text \<open>
  The dashboard (\<^verbatim>\<open>country_automation_dashboard.py\<close>) keeps one pandas DataFrame per
  country, read from a spreadsheet. A cell of such a table is a number, a text or a
  missing value (the float NaN that \<^verbatim>\<open>read_excel\<close> puts in an empty cell). Numbers are
  idealised as reals; Python's int \<open>0\<close>, the fallback of the bounds checks, is \<open>Num 0\<close>.
  Texts are ASCII strings.
\<close>

datatype cell = is_Num: Num (num_val: real) | is_Str: Str string | is_NaN: NaN

text \<open>The exceptions that the modelled functions can raise.\<close>

datatype error = IndexError | TypeError | ReError

text \<open>
  A DataFrame has column labels and rows; \<^verbatim>\<open>len(df.columns)\<close> is the number of labels,
  also when there is no row, and \<^verbatim>\<open>len(df)\<close> is the number of rows. Every row of a
  DataFrame has one cell per column (\<open>df_ok\<close>).
\<close>

record dataframe =
  columns :: "cell list"
  rows :: "cell list list"

definition df_ok :: "dataframe \<Rightarrow> bool" where
  "df_ok df = list_all (\<lambda>r. length r = length (columns df)) (rows df)"

text \<open>
  \<^verbatim>\<open>df.iloc[:, j]\<close>: the column at position \<open>j\<close>; pandas raises IndexError
  (``single positional indexer is out-of-bounds'') when there is no such column.
\<close>

definition iloc_col :: "dataframe \<Rightarrow> nat \<Rightarrow> error + cell list" where
  "iloc_col df j =
     (if j < length (columns df) then Inr (map (\<lambda>r. r ! j) (rows df))
      else Inl IndexError)"

text \<open>\<^verbatim>\<open>df[mask]\<close>: the rows whose entry in a boolean mask is true, in their order.\<close>

definition select_rows :: "cell list list \<Rightarrow> bool list \<Rightarrow> cell list list" where
  "select_rows rs keep = map fst (filter snd (zip rs keep))"

section \<open>Statistics of one occupation across countries\<close>

text \<open>
  \<^verbatim>\<open>calculate_country_occupation_stats\<close> (lines 210-238). A dict that is iterated
  (\<^verbatim>\<open>country_data.items()\<close>) is an association list in insertion order; the dict that
  is built and only looked up afterwards (\<^verbatim>\<open>stats\<close>) is a map.
\<close>

record occupation_stats =
  probabilities :: "cell list"
  years :: "nat list"
  current_2024 :: cell
  outlook_2030 :: cell
  midterm_2050 :: cell
  final_2107 :: cell

text \<open>
  The body of \<^verbatim>\<open>if not occ_row.empty\<close>, for the probability cells \<open>probs\<close> of the
  first matching row (lines 224-236). \<^verbatim>\<open>probs[-1]\<close> is the last cell.
\<close>

definition stats_of_probs :: "cell list \<Rightarrow> occupation_stats" where
  "stats_of_probs probs =
     \<lparr> probabilities = probs,
       years = take (length probs) [2017..<2108],
       current_2024 = (if length probs > 7 then probs ! 7 else Num 0),
       outlook_2030 = (if length probs > 13 then probs ! 13 else Num 0),
       midterm_2050 = (if length probs > 33 then probs ! 33 else Num 0),
       final_2107 = (if length probs > 0 then last probs else Num 0) \<rparr>"

text \<open>
  \<^verbatim>\<open>df[df.iloc[:, 1] == occupation_title]\<close>: the rows whose second cell is the text
  \<open>occupation_title\<close>; a number or a missing cell is not equal to a text.
\<close>

definition title_rows :: "dataframe \<Rightarrow> string \<Rightarrow> error + cell list list" where
  "title_rows df occupation_title =
     (case iloc_col df 1 of
        Inl e \<Rightarrow> Inl e
      | Inr titles \<Rightarrow> Inr (select_rows (rows df) (map (\<lambda>c. c = Str occupation_title) titles)))"

text \<open>
  The loop over the countries, with the dict \<open>stats\<close> built so far. \<^verbatim>\<open>occ_row.iloc[0, 2:]\<close>
  is the first matching row without its two identifier cells.
\<close>

fun stats_loop ::
  "string \<Rightarrow> (string \<times> dataframe) list \<Rightarrow> (string \<rightharpoonup> occupation_stats)
     \<Rightarrow> error + (string \<rightharpoonup> occupation_stats)" where
  "stats_loop occupation_title [] stats = Inr stats"
| "stats_loop occupation_title ((country_code, df) # rest) stats =
     (case title_rows df occupation_title of
        Inl e \<Rightarrow> Inl e
      | Inr occ_row \<Rightarrow>
          (case occ_row of
             [] \<Rightarrow> stats_loop occupation_title rest stats
           | r # _ \<Rightarrow>
               stats_loop occupation_title rest
                 (stats(country_code \<mapsto> stats_of_probs (drop 2 r)))))"

definition calculate_country_occupation_stats ::
  "string \<Rightarrow> (string \<times> dataframe) list \<Rightarrow> error + (string \<rightharpoonup> occupation_stats)" where
  "calculate_country_occupation_stats occupation_title country_data =
     stats_loop occupation_title country_data Map.empty"

text \<open>The row that the extraction uses: the first row of the table with the given title.\<close>

definition first_title_row :: "dataframe \<Rightarrow> string \<Rightarrow> cell list option" where
  "first_title_row df occupation_title =
     find (\<lambda>r. r ! 1 = Str occupation_title) (rows df)"

text \<open>
  What the loop leaves in the dict: the entries it started with, overwritten for every
  country that has a row with the title (the last table of a code wins).
\<close>

fun stats_spec ::
  "string \<Rightarrow> (string \<times> dataframe) list \<Rightarrow> (string \<rightharpoonup> occupation_stats)
     \<Rightarrow> (string \<rightharpoonup> occupation_stats)" where
  "stats_spec t [] stats = stats"
| "stats_spec t ((code, df) # rest) stats =
     stats_spec t rest
       (case first_title_row df t of
          None \<Rightarrow> stats
        | Some r \<Rightarrow> stats(code \<mapsto> stats_of_probs (drop 2 r)))"

section \<open>Risk labels\<close>

text \<open>
  \<^verbatim>\<open>x > t\<close> for a cell and a float: a missing value compares false, and comparing a
  text with a float raises TypeError.
\<close>

definition cell_gt :: "cell \<Rightarrow> real \<Rightarrow> error + bool" where
  "cell_gt x t = (case x of Num v \<Rightarrow> Inr (v > t) | NaN \<Rightarrow> Inr False | Str s \<Rightarrow> Inl TypeError)"

text \<open>The three circles of the labels, as the UTF-8 bytes of the source text.\<close>

definition red_circle :: string where
  "red_circle = [CHR 0xF0, CHR 0x9F, CHR 0x94, CHR 0xB4]"

definition yellow_circle :: string where
  "yellow_circle = [CHR 0xF0, CHR 0x9F, CHR 0x9F, CHR 0xA1]"

definition green_circle :: string where
  "green_circle = [CHR 0xF0, CHR 0x9F, CHR 0x9F, CHR 0xA2]"

text \<open>
  The conditional expression of lines 557-558 (risk table of the country comparison),
  on \<^verbatim>\<open>country_stats['current_2024']\<close>. The second comparison is evaluated only when the
  first one is false.
\<close>

definition risk_level_comparison :: "cell \<Rightarrow> error + string" where
  "risk_level_comparison current =
     (case cell_gt current 0.5 of
        Inl e \<Rightarrow> Inl e
      | Inr high \<Rightarrow>
          if high then Inr (red_circle @ '' High'')
          else (case cell_gt current 0.2 of
                  Inl e \<Rightarrow> Inl e
                | Inr medium \<Rightarrow>
                    if medium then Inr (yellow_circle @ '' Medium'')
                    else Inr (green_circle @ '' Low'')))"

text \<open>Lines 639-640 (comparison table of the multi-occupation tab), on \<^verbatim>\<open>current_2024\<close>.\<close>

definition risk_level_table :: "cell \<Rightarrow> error + string" where
  "risk_level_table current =
     (case cell_gt current 0.5 of
        Inl e \<Rightarrow> Inl e
      | Inr high \<Rightarrow>
          if high then Inr (red_circle @ '' High'')
          else (case cell_gt current 0.2 of
                  Inl e \<Rightarrow> Inl e
                | Inr medium \<Rightarrow>
                    if medium then Inr (yellow_circle @ '' Medium'')
                    else Inr (green_circle @ '' Low'')))"

text \<open>Lines 685-686 (occupation cards of the browse tab); the labels end in ``Risk''.\<close>

definition risk_level_browse :: "cell \<Rightarrow> error + string" where
  "risk_level_browse current =
     (case cell_gt current 0.5 of
        Inl e \<Rightarrow> Inl e
      | Inr high \<Rightarrow>
          if high then Inr (red_circle @ '' High Risk'')
          else (case cell_gt current 0.2 of
                  Inl e \<Rightarrow> Inl e
                | Inr medium \<Rightarrow>
                    if medium then Inr (yellow_circle @ '' Medium Risk'')
                    else Inr (green_circle @ '' Low Risk'')))"

section \<open>The values plotted for one occupation\<close>

text \<open>
  \<^verbatim>\<open>create_multi_occupation_plot\<close>, lines 297-301, for the first row with the title.
  \<^verbatim>\<open>pd.to_numeric(probs, errors='coerce')\<close> keeps a number, reads a text as a number
  where it is one (\<open>parse_num\<close> stands for pandas' number parser) and gives NaN for any
  other text; a float that may be NaN is a \<open>real option\<close>.
\<close>

definition to_numeric_coerce :: "(string \<Rightarrow> real option) \<Rightarrow> cell list \<Rightarrow> real option list" where
  "to_numeric_coerce parse_num probs =
     map (\<lambda>c. case c of Num v \<Rightarrow> Some v | Str s \<Rightarrow> parse_num s | NaN \<Rightarrow> None) probs"

text \<open>\<^verbatim>\<open>np.nan_to_num(probs, nan=0)\<close>.\<close>

definition nan_to_num :: "real option list \<Rightarrow> real list" where
  "nan_to_num xs = map (\<lambda>x. case x of None \<Rightarrow> 0 | Some v \<Rightarrow> v) xs"

text \<open>The pair \<open>(years, probs)\<close> that line 304 plots for a row.\<close>

definition plotted_series :: "(string \<Rightarrow> real option) \<Rightarrow> cell list \<Rightarrow> nat list \<times> real list" where
  "plotted_series parse_num r =
     (let probs = drop 2 r;
          probs = to_numeric_coerce parse_num probs;
          probs = nan_to_num probs;
          years = [2017..<2017 + length probs]
      in (years, probs))"

section \<open>Searching the occupations of a table\<close>

text \<open>
  \<^verbatim>\<open>str.lower()\<close>, on ASCII text: the letters A to Z are mapped to a to z and every
  other byte is kept.
\<close>

definition lower_char :: "char \<Rightarrow> char" where
  "lower_char c =
     (case map_of (zip ''ABCDEFGHIJKLMNOPQRSTUVWXYZ'' ''abcdefghijklmnopqrstuvwxyz'') c of
        None \<Rightarrow> c
      | Some l \<Rightarrow> l)"

definition lower :: "string \<Rightarrow> string" where
  "lower s = map lower_char s"

text \<open>
  \<^verbatim>\<open>astype(str)\<close> on a cell: a text is kept, a missing value becomes the text
  \<^verbatim>\<open>nan\<close>, and a number becomes its Python rendering, \<open>num_str\<close>, a parameter of the model.
\<close>

definition cell_str :: "(real \<Rightarrow> string) \<Rightarrow> cell \<Rightarrow> string" where
  "cell_str num_str c = (case c of Str s \<Rightarrow> s | Num v \<Rightarrow> num_str v | NaN \<Rightarrow> ''nan'')"

text \<open>
  \<^verbatim>\<open>Series.str.contains(pat, na=False)\<close> is called without \<^verbatim>\<open>regex=False\<close>, so pandas
  compiles \<open>pat\<close> with Python's \<^verbatim>\<open>re\<close> module and keeps the entries in which
  \<^verbatim>\<open>re.search\<close> finds a match. The characters below are the special characters of \<^verbatim>\<open>re\<close>;
  any other character matches itself, and \<^verbatim>\<open>.\<close> matches any character but a newline.
\<close>

definition re_special :: "char list" where
  "re_special = [CHR ''.'', CHR ''^'', CHR ''$'', CHR ''*'', CHR ''+'', CHR ''?'', CHR ''{'', CHR ''}'',
                 CHR ''['', CHR '']'', CHR 0x5C, CHR ''|'', CHR ''('', CHR '')'']"

fun re_match_here :: "string \<Rightarrow> string \<Rightarrow> bool" where
  "re_match_here [] s = True"
| "re_match_here (p # ps) [] = False"
| "re_match_here (p # ps) (c # cs) =
     ((if p = CHR ''.'' then c \<noteq> CHR 0x0A else p = c) \<and> re_match_here ps cs)"

fun re_search :: "string \<Rightarrow> string \<Rightarrow> bool" where
  "re_search pat [] = re_match_here pat []"
| "re_search pat (c # cs) = (re_match_here pat (c # cs) \<or> re_search pat cs)"

text \<open>
  Compiling a pattern gives a matcher or raises \<^verbatim>\<open>re.error\<close>. A pattern of ordinary
  characters and dots is matched as above; what \<^verbatim>\<open>re\<close> does with any other pattern
  (groups, repetitions, classes, escapes, anchors, and the errors of a malformed
  pattern) is the parameter \<open>re_other\<close>.
\<close>

definition re_compile ::
  "(string \<Rightarrow> error + (string \<Rightarrow> bool)) \<Rightarrow> string \<Rightarrow> error + (string \<Rightarrow> bool)" where
  "re_compile re_other pat =
     (if list_all (\<lambda>c. c \<notin> set re_special \<or> c = CHR ''.'') pat then Inr (re_search pat)
      else re_other pat)"

definition str_contains ::
  "(string \<Rightarrow> error + (string \<Rightarrow> bool)) \<Rightarrow> string list \<Rightarrow> string \<Rightarrow> error + bool list" where
  "str_contains re_other col pat =
     (case re_compile re_other pat of
        Inl e \<Rightarrow> Inl e
      | Inr found \<Rightarrow> Inr (map found col))"

text \<open>\<^verbatim>\<open>search_occupations\<close> (lines 199-208).\<close>

definition search_occupations ::
  "(string \<Rightarrow> error + (string \<Rightarrow> bool)) \<Rightarrow> (real \<Rightarrow> string) \<Rightarrow> dataframe \<Rightarrow> string
     \<Rightarrow> error + dataframe" where
  "search_occupations re_other num_str data search_term =
     (if search_term = [] then Inr data
      else
        let search_term = lower search_term in
        case iloc_col data 0 of
          Inl e \<Rightarrow> Inl e
        | Inr socs \<Rightarrow>
            (case str_contains re_other (map (\<lambda>c. lower (cell_str num_str c)) socs) search_term of
               Inl e \<Rightarrow> Inl e
             | Inr soc_matches \<Rightarrow>
                 (case iloc_col data 1 of
                    Inl e \<Rightarrow> Inl e
                  | Inr titles \<Rightarrow>
                      (case str_contains re_other (map (\<lambda>c. lower (cell_str num_str c)) titles)
                              search_term of
                         Inl e \<Rightarrow> Inl e
                       | Inr title_matches \<Rightarrow>
                           Inr (data\<lparr>rows := select_rows (rows data)
                                   (map (\<lambda>(a, b). a \<or> b) (zip soc_matches title_matches))\<rparr>)))))"

text \<open>
  The claimed search: the rows in which the term occurs, ignoring case, as a substring
  of the code or of the title, in their order.
\<close>

definition search_spec :: "(real \<Rightarrow> string) \<Rightarrow> dataframe \<Rightarrow> string \<Rightarrow> dataframe" where
  "search_spec num_str data search_term =
     data\<lparr>rows :=
       filter (\<lambda>r. sublist (lower search_term) (lower (cell_str num_str (r ! 0)))
                 \<or> sublist (lower search_term) (lower (cell_str num_str (r ! 1))))
         (rows data)\<rparr>"

section \<open>Overview of a country\<close>

text \<open>The numbers of a column; \<^verbatim>\<open>Series.mean()\<close> skips the missing values.\<close>

fun nums :: "cell list \<Rightarrow> real list" where
  "nums [] = []"
| "nums (Num v # cs) = v # nums cs"
| "nums (c # cs) = nums cs"

text \<open>
  \<^verbatim>\<open>Series.mean()\<close>: the mean of the numbers of the column, NaN when there is none
  (an empty column, or only missing values), and TypeError when a cell is a text.
\<close>

definition series_mean :: "cell list \<Rightarrow> error + cell" where
  "series_mean col =
     (if list_ex is_Str col then Inl TypeError
      else if nums col = [] then Inr NaN
      else Inr (Num (sum_list (nums col) / real (length (nums col)))))"

text \<open>\<^verbatim>\<open>col > t\<close>, cell by cell.\<close>

fun series_gt :: "cell list \<Rightarrow> real \<Rightarrow> error + bool list" where
  "series_gt [] t = Inr []"
| "series_gt (c # cs) t =
     (case cell_gt c t of
        Inl e \<Rightarrow> Inl e
      | Inr b \<Rightarrow> (case series_gt cs t of Inl e \<Rightarrow> Inl e | Inr bs \<Rightarrow> Inr (b # bs)))"

record overview =
  total_occupations :: nat
  avg_automation_2024 :: cell
  high_risk_occupations_2050 :: nat
  high_risk_percentage :: real

text \<open>The body of the loop of \<^verbatim>\<open>create_country_overview_metrics\<close> (lines 354-370).\<close>

definition country_overview :: "dataframe \<Rightarrow> error + overview" where
  "country_overview df =
     (let total_occupations = length (rows df) in
      case (if length (columns df) > 9
            then (case iloc_col df 9 of Inl e \<Rightarrow> Inl e | Inr col \<Rightarrow> series_mean col)
            else Inr (Num 0)) of
        Inl e \<Rightarrow> Inl e
      | Inr avg_2024 \<Rightarrow>
          (case (if length (columns df) > 35
                 then (case iloc_col df 35 of
                         Inl e \<Rightarrow> Inl e
                       | Inr col \<Rightarrow>
                           (case series_gt col 0.5 of
                              Inl e \<Rightarrow> Inl e
                            | Inr bs \<Rightarrow> Inr (length (filter id bs))))
                 else Inr 0) of
             Inl e \<Rightarrow> Inl e
           | Inr high_risk_2050 \<Rightarrow>
               Inr \<lparr> total_occupations = total_occupations,
                     avg_automation_2024 = avg_2024,
                     high_risk_occupations_2050 = high_risk_2050,
                     high_risk_percentage =
                       (if total_occupations > 0
                        then real high_risk_2050 / real total_occupations * 100 else 0) \<rparr>))"

fun overview_loop ::
  "(string \<times> dataframe) list \<Rightarrow> (string \<rightharpoonup> overview) \<Rightarrow> error + (string \<rightharpoonup> overview)" where
  "overview_loop [] overview_stats = Inr overview_stats"
| "overview_loop ((country_code, df) # rest) overview_stats =
     (case country_overview df of
        Inl e \<Rightarrow> Inl e
      | Inr s \<Rightarrow> overview_loop rest (overview_stats(country_code \<mapsto> s)))"

definition create_country_overview_metrics ::
  "(string \<times> dataframe) list \<Rightarrow> error + (string \<rightharpoonup> overview)" where
  "create_country_overview_metrics country_data = overview_loop country_data Map.empty"

text \<open>
  The overview in the words of the specification (sections 3, 4.4 and 8): a cell that
  is no number counts as 0 where it is used, the average is the sum of column 9 over
  the number of rows, and it is 0 for a table without rows or with at most 9 columns;
  the high-risk count is the number of rows whose cell in column 35 exceeds 0.5.
\<close>

definition coerce_0 :: "cell \<Rightarrow> real" where
  "coerce_0 c = (case c of Num v \<Rightarrow> v | Str s \<Rightarrow> 0 | NaN \<Rightarrow> 0)"

definition spec_mean :: "cell list \<Rightarrow> real" where
  "spec_mean col = (if col = [] then 0 else sum_list (map coerce_0 col) / real (length col))"

definition spec_high_risk :: "dataframe \<Rightarrow> nat" where
  "spec_high_risk df =
     (if length (columns df) > 35
      then length (filter (\<lambda>r. coerce_0 (r ! 35) > 0.5) (rows df)) else 0)"

definition spec_overview :: "dataframe \<Rightarrow> overview" where
  "spec_overview df =
     \<lparr> total_occupations = length (rows df),
       avg_automation_2024 =
         Num (if length (columns df) > 9 then spec_mean (map (\<lambda>r. r ! 9) (rows df)) else 0),
       high_risk_occupations_2050 = spec_high_risk df,
       high_risk_percentage =
         (if length (rows df) > 0
          then real (spec_high_risk df) / real (length (rows df)) * 100 else 0) \<rparr>"

text \<open>
  Column \<open>j\<close>, where the table has it, holds no text (\<open>no_text\<close>), or has a cell and
  holds numbers only (\<open>numbers_only\<close>).
\<close>

definition no_text :: "dataframe \<Rightarrow> nat \<Rightarrow> bool" where
  "no_text df j = (j < length (columns df) \<longrightarrow> list_all (\<lambda>r. \<not> is_Str (r ! j)) (rows df))"

definition numbers_only :: "dataframe \<Rightarrow> nat \<Rightarrow> bool" where
  "numbers_only df j =
     (j < length (columns df) \<longrightarrow> rows df \<noteq> [] \<and> list_all (\<lambda>r. is_Num (r ! j)) (rows df))"

section \<open>Loading the tables\<close>

text \<open>An entry of \<^verbatim>\<open>COUNTRIES\<close> (lines 110-153); its key \<^verbatim>\<open>'file'\<close> is the field \<open>file_name\<close>.\<close>

record country_info =
  name :: string
  flag :: string
  file_name :: string
  description :: string
  color :: string

definition COUNTRIES :: "(string \<times> country_info) list" where
  "COUNTRIES =
     [(''USA'',
       \<lparr> name = ''United States'',
         flag = [CHR 0xF0, CHR 0x9F, CHR 0x87, CHR 0xBA, CHR 0xF0, CHR 0x9F, CHR 0x87, CHR 0xB8],
         file_name = ''USA_corrected.xlsx'',
         description = ''Advanced economy with high tech adoption'',
         color = ''#1f77b4'' \<rparr>),
      (''Germany'',
       \<lparr> name = ''Germany'',
         flag = [CHR 0xF0, CHR 0x9F, CHR 0x87, CHR 0xA9, CHR 0xF0, CHR 0x9F, CHR 0x87, CHR 0xAA],
         file_name = ''Germany_corrected.xlsx'',
         description = ''Industrial leader with strong manufacturing'',
         color = ''#ff7f0e'' \<rparr>),
      (''China'',
       \<lparr> name = ''China'',
         flag = [CHR 0xF0, CHR 0x9F, CHR 0x87, CHR 0xA8, CHR 0xF0, CHR 0x9F, CHR 0x87, CHR 0xB3],
         file_name = ''China_corrected.xlsx'',
         description = ''Rapidly developing with massive AI investments'',
         color = ''#2ca02c'' \<rparr>),
      (''Algeria'',
       \<lparr> name = ''Algeria'',
         flag = [CHR 0xF0, CHR 0x9F, CHR 0x87, CHR 0xA9, CHR 0xF0, CHR 0x9F, CHR 0x87, CHR 0xBF],
         file_name = ''Algeria_corrected.xlsx'',
         description = ''North African economy with emerging tech sector'',
         color = ''#d62728'' \<rparr>),
      (''MENA'',
       \<lparr> name = ''MENA Region'',
         flag = [CHR 0xF0, CHR 0x9F, CHR 0x8F, CHR 0xBA],
         file_name = ''Mena_corrected.xlsx'',
         description = ''Middle East & North Africa regional perspective'',
         color = ''#9467bd'' \<rparr>),
      (''Mali'',
       \<lparr> name = ''Mali'',
         flag = [CHR 0xF0, CHR 0x9F, CHR 0x87, CHR 0xB2, CHR 0xF0, CHR 0x9F, CHR 0x87, CHR 0xB1],
         file_name = ''Mali_corrected.xlsx'',
         description = ''West African developing economy'',
         color = ''#8c564b'' \<rparr>)]"

text \<open>
  What the working directory holds under a file name: nothing (\<^verbatim>\<open>os.path.exists\<close> is
  false), a file that \<^verbatim>\<open>pd.read_excel\<close> rejects with an exception of the given message,
  or a spreadsheet that it reads as a table.
\<close>

datatype file_state = Absent | Unreadable string | Sheet dataframe

text \<open>
  The state of \<^verbatim>\<open>load_country_data\<close> (lines 155-173): the two results and the error
  boxes that \<^verbatim>\<open>st.error\<close> has shown.
\<close>

record load_state =
  country_data :: "(string \<times> dataframe) list"
  missing_files :: "string list"
  shown_errors :: "string list"

fun load_loop ::
  "(string \<Rightarrow> file_state) \<Rightarrow> (string \<times> country_info) list \<Rightarrow> load_state \<Rightarrow> load_state" where
  "load_loop fs [] st = st"
| "load_loop fs ((country_code, country_info) # rest) st =
     load_loop fs rest
       (case fs (file_name country_info) of
          Sheet df \<Rightarrow>
            st\<lparr>country_data := AList.update country_code df (country_data st)\<rparr>
        | Absent \<Rightarrow>
            st\<lparr>missing_files := missing_files st @ [file_name country_info]\<rparr>
        | Unreadable msg \<Rightarrow>
            st\<lparr>shown_errors :=
                 shown_errors st @ [''Error loading '' @ file_name country_info @ '': '' @ msg],
               missing_files := missing_files st @ [file_name country_info]\<rparr>)"

text \<open>The loop for any configuration of countries, and the function on \<open>COUNTRIES\<close>.\<close>

definition load_countries ::
  "(string \<times> country_info) list \<Rightarrow> (string \<Rightarrow> file_state) \<Rightarrow> load_state" where
  "load_countries countries fs =
     load_loop fs countries \<lparr> country_data = [], missing_files = [], shown_errors = [] \<rparr>"

definition load_country_data :: "(string \<Rightarrow> file_state) \<Rightarrow> load_state" where
  "load_country_data fs = load_countries COUNTRIES fs"

text \<open>The table that a country's file gives, if it can be read.\<close>

definition loaded :: "(string \<Rightarrow> file_state) \<Rightarrow> country_info \<Rightarrow> dataframe option" where
  "loaded fs info = (case fs (file_name info) of Sheet df \<Rightarrow> Some df | _ \<Rightarrow> None)"

text \<open>
  The expected results for a configuration: the tables of the countries whose file can
  be read, and the file names of the others, both in the order of the configuration.
\<close>

fun loaded_tables ::
  "(string \<Rightarrow> file_state) \<Rightarrow> (string \<times> country_info) list \<Rightarrow> (string \<times> dataframe) list" where
  "loaded_tables fs [] = []"
| "loaded_tables fs ((code, info) # rest) =
     (case loaded fs info of
        Some df \<Rightarrow> (code, df) # loaded_tables fs rest
      | None \<Rightarrow> loaded_tables fs rest)"

fun failed_files :: "(string \<Rightarrow> file_state) \<Rightarrow> (string \<times> country_info) list \<Rightarrow> string list" where
  "failed_files fs [] = []"
| "failed_files fs ((code, info) # rest) =
     (case loaded fs info of
        Some df \<Rightarrow> failed_files fs rest
      | None \<Rightarrow> file_name info # failed_files fs rest)"

section \<open>Exporting a table\<close>

text \<open>
  The bytes of a download are described by the pandas call that produces them:
  \<^verbatim>\<open>data.to_csv(index=False)\<close> encoded as UTF-8, or the workbook that an
  \<^verbatim>\<open>ExcelWriter\<close> holds after \<^verbatim>\<open>to_excel(writer, sheet_name=..., index=False)\<close>, a list
  of named sheets.
\<close>

datatype file_bytes = Csv_bytes dataframe | Xlsx_bytes "(string \<times> dataframe) list"

text \<open>\<^verbatim>\<open>export_data\<close> (lines 336-346): the bytes, the file name and the MIME type.\<close>

definition export_data :: "dataframe \<Rightarrow> string \<Rightarrow> string \<Rightarrow> file_bytes \<times> string \<times> string" where
  "export_data data filename file_format =
     (if lower file_format = ''csv''
      then (Csv_bytes data, filename @ ''.csv'', ''text/csv'')
      else (Xlsx_bytes [(''Data'', data)], filename @ ''.xlsx'',
            ''application/vnd.openxmlformats-officedocument.spreadsheetml.sheet''))"

text \<open>The spellings of \<^verbatim>\<open>csv\<close> in upper and lower case.\<close>

definition csv_spellings :: "string list" where
  "csv_spellings = [''csv'', ''csV'', ''cSv'', ''cSV'', ''Csv'', ''CsV'', ''CSv'', ''CSV'']"

section \<open>The CSV text of a table\<close>















section \<open>Example tables\<close>

text \<open>
  A table with the two identifier columns and the eight years 2017 to 2024. The last
  cell of the second row is a text, as a spreadsheet with a remark in a cell gives it.
\<close>

definition example_table :: dataframe where
  "example_table =
     \<lparr> columns = [Str ''SOC'', Str ''Title'', Num 2017, Num 2018, Num 2019, Num 2020,
                  Num 2021, Num 2022, Num 2023, Num 2024],
       rows = [[Str ''11-1011'', Str ''Chief Executives'', Num 0.01, Num 0.02, Num 0.03,
                Num 0.04, Num 0.05, Num 0.06, Num 0.07, Num 0.55],
               [Str ''15-1252'', Str ''Software Developer'', Num 0.1, Num 0.12, Num 0.13,
                Num 0.14, Num 0.15, Num 0.16, Num 0.17, Str ''TBD'']] \<rparr>"

text \<open>
  A working directory with a good spreadsheet for the USA and a damaged file for
  Germany; the other files are absent.
\<close>

definition example_files :: "string \<Rightarrow> file_state" where
  "example_files f =
     (if f = ''USA_corrected.xlsx'' then Sheet example_table
      else if f = ''Germany_corrected.xlsx'' then Unreadable ''File is not a zip file''
      else Absent)"

text \<open>The sheet of \<open>example_table\<close> with its header row only.\<close>

definition header_only_table :: dataframe where
  "header_only_table = example_table\<lparr>rows := []\<rparr>"

text \<open>
  A table with the years 2017 to 2050, so that column 35 is its last one; the cells of
  the third row are empty.
\<close>

definition wide_table :: dataframe where
  "wide_table =
     \<lparr> columns = [Str ''SOC'', Str ''Title''] @ map (\<lambda>y. Num (real y)) [2017..<2051],
       rows = [[Str ''11-1011'', Str ''Chief Executives''] @ replicate 34 (Num 0.6),
               [Str ''15-1252'', Str ''Software Developer''] @ replicate 34 (Num 0.3),
               [Str ''43-9021'', Str ''Data Entry Keyers''] @ replicate 34 NaN] \<rparr>"


section \<open>Properties of the statistics extraction\<close>

text \<open>The example tables are tables: every row has a cell for every column.\<close>

lemma example_tables_ok: "df_ok example_table \<and> df_ok header_only_table \<and> df_ok wide_table"
  by (simp add: df_ok_def example_table_def header_only_table_def wide_table_def)

lemma select_rows_filter:
  "select_rows rs (map p rs) = filter p rs"
  by (induction rs) (simp_all add: select_rows_def)

lemma title_rows_eq:
  assumes "2 \<le> length (columns df)"
  shows "title_rows df t = Inr (filter (\<lambda>r. r ! 1 = Str t) (rows df))"
proof -
  have "select_rows (rows df) (map (\<lambda>c. c = Str t) (map (\<lambda>r. r ! 1) (rows df)))
          = filter (\<lambda>r. r ! 1 = Str t) (rows df)"
    using select_rows_filter [where p = "\<lambda>r. r ! 1 = Str t" and rs = "rows df"]
    by (simp add: comp_def)
  with assms show ?thesis
    by (simp add: title_rows_def iloc_col_def)
qed

lemma filter_first_find:
  "(case filter p xs of [] \<Rightarrow> None | x # _ \<Rightarrow> Some x) = find p xs"
  by (induction xs) simp_all

lemma stats_loop_spec:
  assumes "\<forall>(code, df) \<in> set tables. 2 \<le> length (columns df)"
  shows "stats_loop t tables stats = Inr (stats_spec t tables stats)"
  using assms
proof (induction tables arbitrary: stats)
  case Nil
  show ?case by simp
next
  case (Cons p rest)
  obtain code df where p: "p = (code, df)" by (cases p)
  from Cons.prems p have cols: "2 \<le> length (columns df)" by simp
  from Cons.prems have rest: "\<forall>(code, df) \<in> set rest. 2 \<le> length (columns df)" by simp
  show ?case
  proof (cases "filter (\<lambda>r. r ! 1 = Str t) (rows df)")
    case Nil
    then have "first_title_row df t = None"
      using filter_first_find [of "\<lambda>r. r ! 1 = Str t" "rows df"]
      by (simp add: first_title_row_def)
    with Nil p cols Cons.IH [OF rest] show ?thesis
      by (simp add: title_rows_eq)
  next
    case (Cons r rs)
    then have "first_title_row df t = Some r"
      using filter_first_find [of "\<lambda>r. r ! 1 = Str t" "rows df"]
      by (simp add: first_title_row_def)
    with Cons p cols Cons.IH [OF rest] show ?thesis
      by (simp add: title_rows_eq fun_upd_def)
  qed
qed

lemma stats_spec_other:
  assumes "code \<notin> fst ` set tables"
  shows "stats_spec t tables stats code = stats code"
  using assms
  by (induction tables arbitrary: stats) (auto split: option.splits)

lemma stats_spec_member:
  assumes "distinct (map fst tables)" and "(code, df) \<in> set tables"
  shows "stats_spec t tables stats code =
           (case first_title_row df t of
              None \<Rightarrow> stats code
            | Some r \<Rightarrow> Some (stats_of_probs (drop 2 r)))"
  using assms
proof (induction tables arbitrary: stats)
  case Nil
  then show ?case by simp
next
  case (Cons p rest)
  obtain c d where p: "p = (c, d)" by (cases p)
  show ?case
  proof (cases "(code, df) = (c, d)")
    case True
    with Cons.prems p have "code \<notin> fst ` set rest" by auto
    with True p show ?thesis
      by (simp add: stats_spec_other split: option.splits)
  next
    case False
    with Cons.prems p have mem: "(code, df) \<in> set rest" and dis: "distinct (map fst rest)"
      and ne: "c \<noteq> code"
      by (auto simp: rev_image_eqI)
    from Cons.IH [OF dis mem] p ne show ?thesis
      by (simp split: option.splits)
  qed
qed

text \<open>
  Claim C1. For a country whose table has a row with the title, the entry of the result
  is taken from the probability cells \<open>probs\<close> of the first such row, of any length \<open>L\<close>:
  \<open>current_2024\<close> is \<open>probs[7]\<close> if \<open>L > 7\<close> and 0 otherwise, \<open>outlook_2030\<close> is \<open>probs[13]\<close>
  if \<open>L > 13\<close> and 0 otherwise, \<open>midterm_2050\<close> is \<open>probs[33]\<close> if \<open>L > 33\<close> and 0
  otherwise, and \<open>final_2107\<close> is \<open>probs[L - 1]\<close> if \<open>L > 0\<close> and 0 otherwise. The tables
  have their two identifier columns (a table without them makes the row lookup raise),
  and the country codes are the keys of a dict.
\<close>

theorem extraction_offsets:
  assumes "distinct (map fst tables)"
    and "\<forall>(code, df) \<in> set tables. 2 \<le> length (columns df)"
    and "(country_code, df) \<in> set tables"
    and "first_title_row df occupation_title = Some r"
    and "probs = drop 2 r" and "L = length probs"
  shows "\<exists>stats s.
      calculate_country_occupation_stats occupation_title tables = Inr stats
      \<and> stats country_code = Some s
      \<and> probabilities s = probs
      \<and> current_2024 s = (if L > 7 then probs ! 7 else Num 0)
      \<and> outlook_2030 s = (if L > 13 then probs ! 13 else Num 0)
      \<and> midterm_2050 s = (if L > 33 then probs ! 33 else Num 0)
      \<and> final_2107 s = (if L > 0 then probs ! (L - 1) else Num 0)"
proof -
  let ?stats = "stats_spec occupation_title tables Map.empty"
  have run: "calculate_country_occupation_stats occupation_title tables = Inr ?stats"
    using assms(2) by (simp add: calculate_country_occupation_stats_def stats_loop_spec)
  have entry: "?stats country_code = Some (stats_of_probs probs)"
    using stats_spec_member [OF assms(1) assms(3)] assms(4) assms(5) by simp
  have fin: "final_2107 (stats_of_probs probs) = (if L > 0 then probs ! (L - 1) else Num 0)"
    using assms(6) by (simp add: stats_of_probs_def last_conv_nth)
  from run entry fin assms(6) show ?thesis
    by (simp add: stats_of_probs_def)
qed

theorem extraction_offsets_witness:
  "\<exists>stats s.
      calculate_country_occupation_stats ''Chief Executives'' [(''USA'', example_table)]
        = Inr stats
      \<and> stats ''USA'' = Some s
      \<and> current_2024 s = Num 0.55
      \<and> outlook_2030 s = Num 0
      \<and> midterm_2050 s = Num 0
      \<and> final_2107 s = Num 0.55"
  using extraction_offsets [of "[(''USA'', example_table)]" "''USA''" example_table
      "''Chief Executives''" "rows example_table ! 0" "drop 2 (rows example_table ! 0)" 8]
  by (auto simp: first_title_row_def example_table_def)

text \<open>
  Claim C2. The extraction hands the cells on as they are: for the row of
  \<open>example_table\<close> whose cell for 2024 is the text \<^verbatim>\<open>TBD\<close>, \<open>current_2024\<close> and
  \<open>final_2107\<close> are that text and not 0, and the risk label computed from it raises
  TypeError.
\<close>

theorem extraction_keeps_text_cell:
  "\<exists>stats s.
      calculate_country_occupation_stats ''Software Developer'' [(''USA'', example_table)]
        = Inr stats
      \<and> stats ''USA'' = Some s
      \<and> current_2024 s = Str ''TBD''
      \<and> final_2107 s = Str ''TBD''
      \<and> risk_level_comparison (current_2024 s) = Inl TypeError"
  by (simp add: calculate_country_occupation_stats_def title_rows_def iloc_col_def
      select_rows_def example_table_def stats_of_probs_def risk_level_comparison_def cell_gt_def)

text \<open>A missing cell is handed on as NaN in the same way.\<close>

lemma extraction_keeps_missing_cell:
  "\<exists>stats s.
      calculate_country_occupation_stats ''Data Entry Keyers'' [(''USA'', wide_table)]
        = Inr stats
      \<and> stats ''USA'' = Some s
      \<and> current_2024 s = NaN
      \<and> midterm_2050 s = NaN"
  by (simp add: calculate_country_occupation_stats_def title_rows_def iloc_col_def
      select_rows_def wide_table_def stats_of_probs_def)

text \<open>
  The plot of several occupations does coerce (lines 298-300): every plotted value is
  a number, and a text that is no number, or a missing cell, is plotted as 0.
\<close>

lemma plotted_series_coerces:
  assumes "i < length r - 2"
  shows "snd (plotted_series parse_num r) ! i =
           (case r ! (i + 2) of
              Num v \<Rightarrow> v
            | Str s \<Rightarrow> (case parse_num s of Some v \<Rightarrow> v | None \<Rightarrow> 0)
            | NaN \<Rightarrow> 0)"
  using assms
  by (simp add: plotted_series_def to_numeric_coerce_def nan_to_num_def Let_def add.commute
      split: cell.splits option.splits)

lemma plotted_series_example:
  "snd (plotted_series (\<lambda>s. None) (rows example_table ! 1)) ! 7 = 0"
  by (simp add: plotted_series_def to_numeric_coerce_def nan_to_num_def example_table_def)

section \<open>Properties of the risk labels\<close>

lemma cell_gt_Num: "cell_gt (Num v) t = Inr (v > t)"
  by (simp add: cell_gt_def)

text \<open>
  Claim C7. The label is a function of the one value, and the three places that produce
  a label use the same thresholds: a probability above 0.5 is labelled High, one above
  0.2 and at most 0.5 is labelled Medium, and one of at most 0.2 is labelled Low (the
  browse tab appends ``Risk'' to the word).
\<close>

theorem risk_tier_sites:
  "(0.5 < v \<longrightarrow>
      risk_level_comparison (Num v) = Inr (red_circle @ '' High'')
      \<and> risk_level_table (Num v) = Inr (red_circle @ '' High'')
      \<and> risk_level_browse (Num v) = Inr (red_circle @ '' High Risk''))
   \<and> (0.2 < v \<and> v \<le> 0.5 \<longrightarrow>
      risk_level_comparison (Num v) = Inr (yellow_circle @ '' Medium'')
      \<and> risk_level_table (Num v) = Inr (yellow_circle @ '' Medium'')
      \<and> risk_level_browse (Num v) = Inr (yellow_circle @ '' Medium Risk''))
   \<and> (v \<le> 0.2 \<longrightarrow>
      risk_level_comparison (Num v) = Inr (green_circle @ '' Low'')
      \<and> risk_level_table (Num v) = Inr (green_circle @ '' Low'')
      \<and> risk_level_browse (Num v) = Inr (green_circle @ '' Low Risk''))"
  by (simp add: risk_level_comparison_def risk_level_table_def risk_level_browse_def cell_gt_Num)

theorem risk_tier_sites_witness:
  "risk_level_comparison (Num 0.55) = Inr (red_circle @ '' High'')
   \<and> risk_level_browse (Num 0.55) = Inr (red_circle @ '' High Risk'')
   \<and> risk_level_table (Num 0.3) = Inr (yellow_circle @ '' Medium'')
   \<and> risk_level_comparison (Num 0.1) = Inr (green_circle @ '' Low'')
   \<and> risk_level_browse (Num 0.2) = Inr (green_circle @ '' Low Risk'')"
  using risk_tier_sites [of "0.55"] risk_tier_sites [of "0.3"] risk_tier_sites [of "0.1"]
    risk_tier_sites [of "0.2"]
  by simp

section \<open>Properties of the search\<close>

text \<open>
  Claim C6. Searching with the empty term returns the table as it is, whatever its
  shape and cells.
\<close>

theorem search_empty_term:
  "search_occupations re_other num_str data [] = Inr data"
  by (simp add: search_occupations_def)

theorem search_empty_term_witness:
  "search_occupations (\<lambda>pat. Inl ReError) (\<lambda>v. ''0'') example_table [] = Inr example_table"
  using search_empty_term [of "\<lambda>pat. Inl ReError" "\<lambda>v. ''0''" example_table]
  by simp

lemma lower_char_special: "lower_char c \<in> set re_special \<longleftrightarrow> c \<in> set re_special"
  by (simp add: lower_char_def re_special_def)

lemma lower_literal:
  "list_all (\<lambda>c. c \<notin> set re_special) (lower s) = list_all (\<lambda>c. c \<notin> set re_special) s"
  by (induction s) (simp_all add: lower_def lower_char_special)

lemma re_match_here_prefix:
  "CHR ''.'' \<notin> set pat \<Longrightarrow> re_match_here pat s = prefix pat s"
  by (induction pat s rule: re_match_here.induct) auto

lemma re_search_sublist:
  "CHR ''.'' \<notin> set pat \<Longrightarrow> re_search pat s = sublist pat s"
proof (induction s)
  case Nil
  then show ?case by (simp add: re_match_here_prefix)
next
  case (Cons c cs)
  then show ?case
    by (simp add: re_match_here_prefix sublist_Cons_right)
qed

lemma re_compile_literal:
  assumes "list_all (\<lambda>c. c \<notin> set re_special) pat"
  shows "re_compile re_other pat = Inr (sublist pat)"
proof -
  from assms have all: "list_all (\<lambda>c. c \<notin> set re_special \<or> c = CHR ''.'') pat"
    by (simp add: list_all_iff)
  from assms have "CHR ''.'' \<notin> set pat"
    by (auto simp: list_all_iff re_special_def)
  then have "re_search pat = sublist pat"
    using re_search_sublist by blast
  with all show ?thesis
    by (simp add: re_compile_def)
qed

lemma select_rows_or:
  "select_rows rs (map (\<lambda>(a, b). a \<or> b) (zip (map f rs) (map g rs)))
     = filter (\<lambda>r. f r \<or> g r) rs"
  by (induction rs) (simp_all add: select_rows_def)

text \<open>
  For a term without special characters, on a table with its two identifier columns,
  the search is the claimed one.
\<close>

lemma search_literal_term:
  assumes "search_term \<noteq> []"
    and "list_all (\<lambda>c. c \<notin> set re_special) search_term"
    and "2 \<le> length (columns data)"
  shows "search_occupations re_other num_str data search_term
           = Inr (search_spec num_str data search_term)"
proof -
  have lit: "re_compile re_other (lower search_term) = Inr (sublist (lower search_term))"
    using assms(2) by (simp add: re_compile_literal lower_literal)
  have sel: "select_rows (rows data)
      (map (\<lambda>(a, b). a \<or> b)
        (zip (map (\<lambda>r. sublist (lower search_term) (lower (cell_str num_str (r ! 0)))) (rows data))
             (map (\<lambda>r. sublist (lower search_term) (lower (cell_str num_str (r ! 1)))) (rows data))))
    = filter (\<lambda>r. sublist (lower search_term) (lower (cell_str num_str (r ! 0)))
                 \<or> sublist (lower search_term) (lower (cell_str num_str (r ! 1)))) (rows data)"
    by (rule select_rows_or)
  from assms(3) have cols: "columns data \<noteq> []" "Suc 0 < length (columns data)"
    by auto
  from assms(1) cols lit sel show ?thesis
    by (simp add: search_occupations_def search_spec_def iloc_col_def str_contains_def
        comp_def Let_def)
qed

text \<open>
  Claim C5. The term is compiled as a regular expression. The term \<^verbatim>\<open>.\<close> occurs in no
  code and no title of \<open>example_table\<close>, so the claimed search returns no row; the
  function returns every row, since \<^verbatim>\<open>.\<close> matches any character.
\<close>

theorem search_dot_matches_all:
  "search_occupations re_other num_str example_table ''.'' = Inr example_table
   \<and> rows (search_spec num_str example_table ''.'') = []"
  by (simp add: search_occupations_def search_spec_def example_table_def cell_str_def
      lower_def lower_char_def iloc_col_def str_contains_def re_compile_def re_special_def
      select_rows_def sublist_code)

section \<open>Properties of the export\<close>

lemma lower_char_c: "lower_char x = CHR ''c'' \<longleftrightarrow> x = CHR ''c'' \<or> x = CHR ''C''"
  by (simp add: lower_char_def)

lemma lower_char_s: "lower_char x = CHR ''s'' \<longleftrightarrow> x = CHR ''s'' \<or> x = CHR ''S''"
  by (simp add: lower_char_def)

lemma lower_char_v: "lower_char x = CHR ''v'' \<longleftrightarrow> x = CHR ''v'' \<or> x = CHR ''V''"
  by (simp add: lower_char_def)

lemma map_eq_triple:
  "map f s = [a, b, c] \<longleftrightarrow> (\<exists>x y z. s = [x, y, z] \<and> f x = a \<and> f y = b \<and> f z = c)"
  by (auto simp: map_eq_Cons_conv)

lemma lower_csv: "lower s = ''csv'' \<longleftrightarrow> s \<in> set csv_spellings"
proof
  assume "lower s = ''csv''"
  then obtain x y z where s: "s = [x, y, z]"
    and x: "lower_char x = CHR ''c''" and y: "lower_char y = CHR ''s''"
    and z: "lower_char z = CHR ''v''"
    unfolding lower_def map_eq_triple by blast
  from x have "x = CHR ''c'' \<or> x = CHR ''C''" by (simp only: lower_char_c)
  moreover from y have "y = CHR ''s'' \<or> y = CHR ''S''" by (simp only: lower_char_s)
  moreover from z have "z = CHR ''v'' \<or> z = CHR ''V''" by (simp only: lower_char_v)
  ultimately show "s \<in> set csv_spellings"
    unfolding s csv_spellings_def by auto
next
  assume "s \<in> set csv_spellings"
  then obtain x y z where s: "s = [x, y, z]"
    and "x = CHR ''c'' \<or> x = CHR ''C''" and "y = CHR ''s'' \<or> y = CHR ''S''"
    and "z = CHR ''v'' \<or> z = CHR ''V''"
    unfolding csv_spellings_def by auto
  then have "lower_char x = CHR ''c''" and "lower_char y = CHR ''s''"
    and "lower_char z = CHR ''v''"
    by (simp_all only: lower_char_c lower_char_s lower_char_v)
  with s show "lower s = ''csv''"
    by (simp add: lower_def)
qed

text \<open>
  Claim C10. The format decides the branch only through being a spelling of \<^verbatim>\<open>csv\<close> in
  upper or lower case: such a format gives the CSV bytes, the name with \<^verbatim>\<open>.csv\<close> and the
  type \<^verbatim>\<open>text/csv\<close>; any other string, known or not, gives a workbook whose only sheet is
  named \<^verbatim>\<open>Data\<close>, the name with \<^verbatim>\<open>.xlsx\<close> and the spreadsheet type. There is no third
  outcome.
\<close>

theorem export_dispatch:
  "export_data data filename file_format =
     (if file_format \<in> set csv_spellings
      then (Csv_bytes data, filename @ ''.csv'', ''text/csv'')
      else (Xlsx_bytes [(''Data'', data)], filename @ ''.xlsx'',
            ''application/vnd.openxmlformats-officedocument.spreadsheetml.sheet''))"
  by (simp only: export_data_def lower_csv)

theorem export_dispatch_witness:
  "export_data example_table ''USA_automation'' ''CSV''
     = (Csv_bytes example_table, ''USA_automation.csv'', ''text/csv'')
   \<and> export_data example_table ''USA_automation'' ''excel''
     = (Xlsx_bytes [(''Data'', example_table)], ''USA_automation.xlsx'',
        ''application/vnd.openxmlformats-officedocument.spreadsheetml.sheet'')
   \<and> export_data example_table ''USA_automation'' ''pdf''
     = (Xlsx_bytes [(''Data'', example_table)], ''USA_automation.xlsx'',
        ''application/vnd.openxmlformats-officedocument.spreadsheetml.sheet'')"
  using export_dispatch [of example_table "''USA_automation''" "''CSV''"]
    export_dispatch [of example_table "''USA_automation''" "''excel''"]
    export_dispatch [of example_table "''USA_automation''" "''pdf''"]
  by (simp add: csv_spellings_def)

section \<open>Properties of the loading\<close>

lemma update_fresh:
  "k \<notin> fst ` set al \<Longrightarrow> AList.update k v al = al @ [(k, v)]"
  by (induction al) auto

lemma loaded_tables_keys_map:
  "set (map fst (loaded_tables fs cs)) \<subseteq> set (map fst cs)"
proof (induction fs cs rule: loaded_tables.induct)
  case (1 fs)
  show ?case by simp
next
  case (2 fs code info rest)
  then show ?case
    by (cases "loaded fs info") auto
qed

lemma loaded_tables_keys: "fst ` set (loaded_tables fs cs) \<subseteq> fst ` set cs"
  using loaded_tables_keys_map [of fs cs] by simp

lemma load_loop_run:
  assumes "distinct (map fst cs)"
    and "fst ` set cs \<inter> fst ` set (country_data st) = {}"
  shows "country_data (load_loop fs cs st) = country_data st @ loaded_tables fs cs
       \<and> missing_files (load_loop fs cs st) = missing_files st @ failed_files fs cs"
  using assms
proof (induction cs arbitrary: st)
  case Nil
  show ?case by simp
next
  case (Cons p cs)
  obtain code info where p: "p = (code, info)" by (cases p)
  from Cons.prems p have fresh: "code \<notin> fst ` set (country_data st)"
    and dis: "distinct (map fst cs)" and notin: "code \<notin> fst ` set cs"
    and disj: "fst ` set cs \<inter> fst ` set (country_data st) = {}"
    by auto
  show ?case
  proof (cases "fs (file_name info)")
    case (Sheet df)
    let ?st = "st\<lparr>country_data := AList.update code df (country_data st)\<rparr>"
    have cd: "country_data ?st = country_data st @ [(code, df)]"
      using fresh by (simp add: update_fresh)
    have "fst ` set cs \<inter> fst ` set (country_data ?st) = {}"
      using disj notin by (auto simp: cd)
    from Cons.IH [OF dis this] cd Sheet p show ?thesis
      by (simp add: loaded_def)
  next
    case Absent
    let ?st = "st\<lparr>missing_files := missing_files st @ [file_name info]\<rparr>"
    have "fst ` set cs \<inter> fst ` set (country_data ?st) = {}"
      using disj by simp
    from Cons.IH [OF dis this] Absent p show ?thesis
      by (simp add: loaded_def)
  next
    case (Unreadable msg)
    let ?st = "st\<lparr>shown_errors :=
                 shown_errors st @ [''Error loading '' @ file_name info @ '': '' @ msg],
               missing_files := missing_files st @ [file_name info]\<rparr>"
    have "fst ` set cs \<inter> fst ` set (country_data ?st) = {}"
      using disj by simp
    from Cons.IH [OF dis this] Unreadable p show ?thesis
      by (simp add: loaded_def)
  qed
qed

lemma map_of_loaded_tables:
  assumes "distinct (map fst cs)" and "(code, info) \<in> set cs"
  shows "map_of (loaded_tables fs cs) code = loaded fs info"
  using assms
proof (induction cs)
  case Nil
  then show ?case by simp
next
  case (Cons p cs)
  obtain c i where p: "p = (c, i)" by (cases p)
  show ?case
  proof (cases "(code, info) = (c, i)")
    case True
    with Cons.prems p have "code \<notin> fst ` set cs" by auto
    then have "code \<notin> fst ` set (loaded_tables fs cs)"
      using loaded_tables_keys by blast
    then have "map_of (loaded_tables fs cs) code = None"
      by (simp add: map_of_eq_None_iff)
    with True p show ?thesis
      by (simp split: option.splits)
  next
    case False
    with Cons.prems p have mem: "(code, info) \<in> set cs" and dis: "distinct (map fst cs)"
      and ne: "c \<noteq> code"
      by (auto simp: rev_image_eqI)
    from Cons.IH [OF dis mem] p ne show ?thesis
      by (simp split: option.splits)
  qed
qed

lemma failed_files_member:
  "(code, info) \<in> set cs \<Longrightarrow> loaded fs info = None \<Longrightarrow> file_name info \<in> set (failed_files fs cs)"
  by (induction cs) (auto split: option.splits)

lemma loaded_failed_length:
  "length (loaded_tables fs cs) + length (failed_files fs cs) = length cs"
  by (induction cs) (auto split: option.splits)

text \<open>
  Claim C8. For every configuration (a dict, so its country codes are distinct) and
  every state of the files, the load visits every country: the returned tables are
  those of the countries whose file is read, under their codes, and the missing list
  holds the file name of every other country, absent or unreadable; each country is in
  exactly one of the two, so no failure ends the loop early, and a country that fails
  to load has no entry in the tables.
\<close>

theorem load_partial_success:
  assumes "distinct (map fst countries)"
    and "res = load_countries countries fs"
  shows "country_data res = loaded_tables fs countries
       \<and> missing_files res = failed_files fs countries
       \<and> length (country_data res) + length (missing_files res) = length countries
       \<and> (\<forall>(code, info) \<in> set countries.
            case fs (file_name info) of
              Sheet df \<Rightarrow> map_of (country_data res) code = Some df
            | _ \<Rightarrow> map_of (country_data res) code = None
                   \<and> file_name info \<in> set (missing_files res))"
proof -
  have run: "country_data res = loaded_tables fs countries
       \<and> missing_files res = failed_files fs countries"
    using load_loop_run [OF assms(1), of "\<lparr> country_data = [], missing_files = [], shown_errors = [] \<rparr>" fs]
    by (simp add: assms(2) load_countries_def)
  have each: "case fs (file_name info) of
              Sheet df \<Rightarrow> map_of (country_data res) code = Some df
            | _ \<Rightarrow> map_of (country_data res) code = None
                   \<and> file_name info \<in> set (missing_files res)"
    if "(code, info) \<in> set countries" for code info
    using map_of_loaded_tables [OF assms(1) that, of fs] failed_files_member [OF that, of fs] run
    by (auto simp: loaded_def split: file_state.splits)
  from run each loaded_failed_length [of fs countries] show ?thesis
    by auto
qed

theorem load_partial_success_witness:
  "distinct (map fst COUNTRIES)
   \<and> country_data (load_country_data example_files) = [(''USA'', example_table)]
   \<and> missing_files (load_country_data example_files) =
       [''Germany_corrected.xlsx'', ''China_corrected.xlsx'', ''Algeria_corrected.xlsx'',
        ''Mena_corrected.xlsx'', ''Mali_corrected.xlsx'']"
proof -
  have d: "distinct (map fst COUNTRIES)"
    by (simp add: COUNTRIES_def)
  from load_partial_success [OF d, of "load_country_data example_files" example_files] d
  show ?thesis
    by (simp add: load_country_data_def COUNTRIES_def loaded_def example_files_def)
qed

section \<open>Properties of the overview\<close>

lemma nums_numbers: "list_all is_Num col \<Longrightarrow> nums col = map coerce_0 col"
proof (induction col)
  case Nil
  show ?case by simp
next
  case (Cons c col)
  then show ?case
    by (cases c) (simp_all add: coerce_0_def)
qed

lemma series_mean_numbers:
  assumes "col \<noteq> []" and "list_all is_Num col"
  shows "series_mean col = Inr (Num (spec_mean col))"
proof -
  from assms(2) have "\<not> list_ex is_Str col"
    by (auto simp: list_ex_iff list_all_iff is_Num_def)
  with assms nums_numbers [OF assms(2)] show ?thesis
    by (simp add: series_mean_def spec_mean_def)
qed

lemma series_gt_coerce:
  "\<not> list_ex is_Str col \<Longrightarrow> 0 \<le> t \<Longrightarrow>
   series_gt col t = Inr (map (\<lambda>c. coerce_0 c > t) col)"
proof (induction col)
  case Nil
  show ?case by simp
next
  case (Cons c col)
  then show ?case
    by (cases c) (simp_all add: cell_gt_def coerce_0_def)
qed

lemma count_true_map: "length (filter id (map p xs)) = length (filter p xs)"
  by (induction xs) simp_all

lemma no_text_column:
  "no_text df j \<Longrightarrow> j < length (columns df) \<Longrightarrow> \<not> list_ex is_Str (map (\<lambda>r. r ! j) (rows df))"
  by (simp add: no_text_def list_ex_iff list_all_iff)

lemma country_overview_numbers:
  assumes "numbers_only df 9" and "no_text df 35"
  shows "country_overview df = Inr (spec_overview df)"
proof -
  have avg: "(if length (columns df) > 9
            then (case iloc_col df 9 of Inl e \<Rightarrow> Inl e | Inr col \<Rightarrow> series_mean col)
            else Inr (Num 0))
        = Inr (Num (if length (columns df) > 9 then spec_mean (map (\<lambda>r. r ! 9) (rows df)) else 0))"
  proof (cases "length (columns df) > 9")
    case True
    with assms(1) have "map (\<lambda>r. r ! 9) (rows df) \<noteq> []"
      and "list_all is_Num (map (\<lambda>r. r ! 9) (rows df))"
      by (simp_all add: numbers_only_def list_all_iff)
    with True show ?thesis
      by (simp add: iloc_col_def series_mean_numbers)
  next
    case False
    then show ?thesis by simp
  qed
  have high: "(if length (columns df) > 35
                 then (case iloc_col df 35 of
                         Inl e \<Rightarrow> Inl e
                       | Inr col \<Rightarrow>
                           (case series_gt col 0.5 of
                              Inl e \<Rightarrow> Inl e
                            | Inr bs \<Rightarrow> Inr (length (filter id bs))))
                 else Inr 0)
        = Inr (spec_high_risk df)"
    using no_text_column [OF assms(2)]
    by (simp add: iloc_col_def series_gt_coerce count_true_map comp_def spec_high_risk_def)
  show ?thesis
    unfolding country_overview_def avg high
    by (simp add: spec_overview_def Let_def)
qed

lemma overview_loop_run:
  assumes "\<forall>(code, df) \<in> set tables. country_overview df = Inr (g df)"
    and "distinct (map fst tables)"
  shows "\<exists>m. overview_loop tables acc = Inr m
          \<and> (\<forall>(code, df) \<in> set tables. m code = Some (g df))
          \<and> (\<forall>code. code \<notin> fst ` set tables \<longrightarrow> m code = acc code)"
  using assms
proof (induction tables arbitrary: acc)
  case Nil
  show ?case by simp
next
  case (Cons p rest)
  obtain c d where p: "p = (c, d)" by (cases p)
  from Cons.prems p have here: "country_overview d = Inr (g d)"
    and rest: "\<forall>(code, df) \<in> set rest. country_overview df = Inr (g df)"
    and dis: "distinct (map fst rest)" and fresh: "c \<notin> fst ` set rest"
    by auto
  from Cons.IH [OF rest dis, of "acc(c \<mapsto> g d)"]
  obtain m where m: "overview_loop rest (acc(c \<mapsto> g d)) = Inr m"
    and mem: "\<forall>(code, df) \<in> set rest. m code = Some (g df)"
    and other: "\<forall>code. code \<notin> fst ` set rest \<longrightarrow> m code = (acc(c \<mapsto> g d)) code"
    by blast
  from other fresh have "m c = Some (g d)" by simp
  moreover from other have "\<forall>code. code \<notin> fst ` set (p # rest) \<longrightarrow> m code = acc code"
    using p by simp
  ultimately show ?case
    using m mem p here by auto
qed

text \<open>
  On tables whose column 9, where present, has a cell and holds numbers only, and whose
  column 35, where present, holds no text, the function computes the overview of the
  specification.
\<close>

lemma overview_numeric_tables:
  assumes "distinct (map fst tables)"
    and "\<forall>(code, df) \<in> set tables. numbers_only df 9 \<and> no_text df 35"
    and "(country_code, df) \<in> set tables"
  shows "\<exists>stats. create_country_overview_metrics tables = Inr stats
           \<and> stats country_code = Some (spec_overview df)"
proof -
  have "\<forall>(code, df) \<in> set tables. country_overview df = Inr (spec_overview df)"
    using assms(2) country_overview_numbers by blast
  from overview_loop_run [OF this assms(1), of Map.empty]
  obtain m where "create_country_overview_metrics tables = Inr m"
    and "\<forall>(code, df) \<in> set tables. m code = Some (spec_overview df)"
    unfolding create_country_overview_metrics_def by blast
  with assms(3) show ?thesis
    by auto
qed

text \<open>
  Claim C4. The overview is not computed for every loaded table: \<open>example_table\<close> has
  more than 9 columns and a text in column 9, and there the mean, and with it the whole
  call, raises TypeError, where the claim gives the mean of the column.
\<close>

theorem overview_rejects_text:
  "create_country_overview_metrics [(''USA'', example_table)] = Inl TypeError"
  by (simp add: create_country_overview_metrics_def country_overview_def
      example_table_def iloc_col_def series_mean_def)

text \<open>
  A missing cell is left out of the mean and not counted as 0: the three cells 0.6, 0.3
  and missing of column 9 of \<open>wide_table\<close> give 0.45, and 0.3 in the words of the
  specification.
\<close>

lemma overview_skips_missing:
  "country_overview wide_table =
     Inr \<lparr> total_occupations = 3, avg_automation_2024 = Num 0.45,
           high_risk_occupations_2050 = 1, high_risk_percentage = 100 / 3 \<rparr>
   \<and> spec_mean (map (\<lambda>r. r ! 9) (rows wide_table)) = 0.3"
  by (simp add: country_overview_def wide_table_def iloc_col_def series_mean_def nth_append
      spec_mean_def coerce_0_def cell_gt_def)

text \<open>
  Claim C3. On a table without rows the overview does not raise and gives 0 for the
  count, the high-risk count and the percentage; the average is 0 only if the table has
  at most 9 columns. For the header-only sheet of ten columns it is NaN, the mean of an
  empty column.
\<close>

theorem overview_header_only:
  "\<exists>stats. create_country_overview_metrics [(''USA'', header_only_table)] = Inr stats
     \<and> stats ''USA'' =
         Some \<lparr> total_occupations = 0, avg_automation_2024 = NaN,
                high_risk_occupations_2050 = 0, high_risk_percentage = 0 \<rparr>"
  by (simp add: create_country_overview_metrics_def country_overview_def header_only_table_def
      example_table_def iloc_col_def series_mean_def)

text \<open>What the overview of any table without rows is.\<close>

lemma overview_empty_table:
  assumes "rows df = []"
  shows "country_overview df =
           Inr \<lparr> total_occupations = 0,
                 avg_automation_2024 = (if length (columns df) > 9 then NaN else Num 0),
                 high_risk_occupations_2050 = 0, high_risk_percentage = 0 \<rparr>"
  using assms by (simp add: country_overview_def iloc_col_def series_mean_def)

section \<open>Properties of the CSV export\<close>












end
